theory Spec2Isabelle
  imports Main "HOL-Library.Word"
begin

section \<open>The join vocabulary of \<^verbatim>\<open>src/Core/Joins.h\<close>\<close>

text \<open>
  The header declares six scoped enumerations over \<^verbatim>\<open>uint8_t\<close>, a family of
  \<^verbatim>\<open>constexpr\<close> predicates on \<^verbatim>\<open>JoinKind\<close>, two \<^verbatim>\<open>constexpr\<close> functions on
  \<^verbatim>\<open>ASOFJoinInequality\<close>, and prototypes of functions whose bodies live in another
  translation unit. Each enumeration is a datatype whose constructors keep the
  enumerators' names; as in C++ they are written qualified (\<open>JoinKind.Left\<close> for
  \<^verbatim>\<open>JoinKind::Left\<close>), because several enumerations share enumerator names.
\<close>

type_synonym u8 = "8 word"

subsection \<open>Enumerations\<close>

datatype JoinKind = Inner | Left | Right | Full | Cross | Comma | Paste

datatype JoinStrictness = Unspecified | RightAny | Any | All | Asof | Semi | Anti

datatype JoinLocality = Unspecified | Local | Global

datatype ASOFJoinInequality = None | Less | Greater | LessOrEquals | GreaterOrEquals


datatype JoinTableSide = Left | Right

subsection \<open>Enumerator lists and their numeric values\<close>

text \<open>
  An enumerator is declared with or without an initializer (\<^verbatim>\<open>DEFAULT = 0\<close> against
  \<^verbatim>\<open>AUTO\<close>). The enumerator lists below are the ones of the header, in its order.
  \<open>enumerator_values\<close> is the numbering rule of C++: an enumerator with an initializer
  has that value, the first enumerator without one has value 0, and every other
  enumerator without one has the value of its predecessor plus one.
\<close>

datatype initializer = Implicit | Explicit u8

fun enumerator_values :: "u8 \<Rightarrow> ('a \<times> initializer) list \<Rightarrow> ('a \<times> u8) list" where
  "enumerator_values n [] = []"
| "enumerator_values n ((e, Implicit) # es) = (e, n) # enumerator_values (n + 1) es"
| "enumerator_values n ((e, Explicit v) # es) = (e, v) # enumerator_values (v + 1) es"


definition JoinKind_enumerators :: "(JoinKind \<times> initializer) list" where
  "JoinKind_enumerators =
     [(JoinKind.Inner, Implicit), (JoinKind.Left, Implicit), (JoinKind.Right, Implicit),
      (JoinKind.Full, Implicit), (JoinKind.Cross, Implicit), (JoinKind.Comma, Implicit),
      (JoinKind.Paste, Implicit)]"

definition JoinStrictness_enumerators :: "(JoinStrictness \<times> initializer) list" where
  "JoinStrictness_enumerators =
     [(JoinStrictness.Unspecified, Implicit), (JoinStrictness.RightAny, Implicit),
      (JoinStrictness.Any, Implicit), (JoinStrictness.All, Implicit),
      (JoinStrictness.Asof, Implicit), (JoinStrictness.Semi, Implicit),
      (JoinStrictness.Anti, Implicit)]"

definition JoinLocality_enumerators :: "(JoinLocality \<times> initializer) list" where
  "JoinLocality_enumerators =
     [(JoinLocality.Unspecified, Implicit), (JoinLocality.Local, Implicit),
      (JoinLocality.Global, Implicit)]"




text \<open>
  The conversion \<^verbatim>\<open>uint8_t(kind)\<close> of an enumeration value to its underlying type: the
  value the numbering rule gives the enumerator (\<open>JoinKind_to_u8_by_declaration\<close> and its
  siblings below check the tables against the enumerator lists).
\<close>

fun JoinKind_to_u8 :: "JoinKind \<Rightarrow> u8" where
  "JoinKind_to_u8 JoinKind.Inner = 0"
| "JoinKind_to_u8 JoinKind.Left = 1"
| "JoinKind_to_u8 JoinKind.Right = 2"
| "JoinKind_to_u8 JoinKind.Full = 3"
| "JoinKind_to_u8 JoinKind.Cross = 4"
| "JoinKind_to_u8 JoinKind.Comma = 5"
| "JoinKind_to_u8 JoinKind.Paste = 6"

fun JoinStrictness_to_u8 :: "JoinStrictness \<Rightarrow> u8" where
  "JoinStrictness_to_u8 JoinStrictness.Unspecified = 0"
| "JoinStrictness_to_u8 JoinStrictness.RightAny = 1"
| "JoinStrictness_to_u8 JoinStrictness.Any = 2"
| "JoinStrictness_to_u8 JoinStrictness.All = 3"
| "JoinStrictness_to_u8 JoinStrictness.Asof = 4"
| "JoinStrictness_to_u8 JoinStrictness.Semi = 5"
| "JoinStrictness_to_u8 JoinStrictness.Anti = 6"

fun JoinLocality_to_u8 :: "JoinLocality \<Rightarrow> u8" where
  "JoinLocality_to_u8 JoinLocality.Unspecified = 0"
| "JoinLocality_to_u8 JoinLocality.Local = 1"
| "JoinLocality_to_u8 JoinLocality.Global = 2"

subsection \<open>Predicates on \<^verbatim>\<open>JoinKind\<close>\<close>

definition isLeft :: "JoinKind \<Rightarrow> bool" where
  "isLeft kind = (kind = JoinKind.Left)"

definition isRight :: "JoinKind \<Rightarrow> bool" where
  "isRight kind = (kind = JoinKind.Right)"

definition isInner :: "JoinKind \<Rightarrow> bool" where
  "isInner kind = (kind = JoinKind.Inner)"

definition isFull :: "JoinKind \<Rightarrow> bool" where
  "isFull kind = (kind = JoinKind.Full)"

definition isOuter :: "JoinKind \<Rightarrow> bool" where
  "isOuter kind = (kind = JoinKind.Left \<or> kind = JoinKind.Right \<or> kind = JoinKind.Full)"

definition isCrossOrComma :: "JoinKind \<Rightarrow> bool" where
  "isCrossOrComma kind = (kind = JoinKind.Comma \<or> kind = JoinKind.Cross)"

definition isRightOrFull :: "JoinKind \<Rightarrow> bool" where
  "isRightOrFull kind = (kind = JoinKind.Right \<or> kind = JoinKind.Full)"

definition isLeftOrFull :: "JoinKind \<Rightarrow> bool" where
  "isLeftOrFull kind = (kind = JoinKind.Left \<or> kind = JoinKind.Full)"

definition isInnerOrRight :: "JoinKind \<Rightarrow> bool" where
  "isInnerOrRight kind = (kind = JoinKind.Inner \<or> kind = JoinKind.Right)"

definition isInnerOrLeft :: "JoinKind \<Rightarrow> bool" where
  "isInnerOrLeft kind = (kind = JoinKind.Inner \<or> kind = JoinKind.Left)"

definition isPaste :: "JoinKind \<Rightarrow> bool" where
  "isPaste kind = (kind = JoinKind.Paste)"

subsection \<open>As-of inequalities\<close>

text \<open>
  \<^verbatim>\<open>getASOFJoinInequality\<close> compares a \<^verbatim>\<open>std::string_view\<close> with four literals by
  \<^verbatim>\<open>==\<close>, which holds when both have the same length and the same bytes: equality of
  \<open>string\<close>s. The local \<^verbatim>\<open>inequality\<close> starts as \<^verbatim>\<open>None\<close> and is assigned by the first
  branch of the chain that matches.
\<close>

definition getASOFJoinInequality :: "string \<Rightarrow> ASOFJoinInequality" where
  "getASOFJoinInequality func_name =
     (let inequality = ASOFJoinInequality.None in
      if func_name = ''less'' then ASOFJoinInequality.Less
      else if func_name = ''greater'' then ASOFJoinInequality.Greater
      else if func_name = ''lessOrEquals'' then ASOFJoinInequality.LessOrEquals
      else if func_name = ''greaterOrEquals'' then ASOFJoinInequality.GreaterOrEquals
      else inequality)"

definition reverseASOFJoinInequality :: "ASOFJoinInequality \<Rightarrow> ASOFJoinInequality" where
  "reverseASOFJoinInequality inequality =
     (if inequality = ASOFJoinInequality.Less then ASOFJoinInequality.Greater
      else if inequality = ASOFJoinInequality.Greater then ASOFJoinInequality.Less
      else if inequality = ASOFJoinInequality.LessOrEquals
        then ASOFJoinInequality.GreaterOrEquals
      else if inequality = ASOFJoinInequality.GreaterOrEquals
        then ASOFJoinInequality.LessOrEquals
      else ASOFJoinInequality.None)"

subsection \<open>The serialization functions the header declares\<close>

text \<open>
  The header declares a pair \<^verbatim>\<open>void serializeX(X, WriteBuffer &)\<close> and
  \<^verbatim>\<open>X deserializeX(ReadBuffer &)\<close> for three of its six enumerations and for no other.
  \<open>serializers\<close> and \<open>deserializers\<close> list these prototypes in the header's order, each
  with the enumeration it is declared for.
\<close>

datatype enumeration =
  JoinKind_enum | JoinStrictness_enum | JoinLocality_enum | ASOFJoinInequality_enum
  | JoinAlgorithm_enum | JoinTableSide_enum

definition enumerations :: "enumeration list" where
  "enumerations =
     [JoinKind_enum, JoinStrictness_enum, JoinLocality_enum, ASOFJoinInequality_enum,
      JoinAlgorithm_enum, JoinTableSide_enum]"

definition serializers :: "(string \<times> enumeration) list" where
  "serializers =
     [(''serializeJoinKind'', JoinKind_enum),
      (''serializeJoinStrictness'', JoinStrictness_enum),
      (''serializeJoinLocality'', JoinLocality_enum)]"

definition deserializers :: "(string \<times> enumeration) list" where
  "deserializers =
     [(''deserializeJoinKind'', JoinKind_enum),
      (''deserializeJoinStrictness'', JoinStrictness_enum),
      (''deserializeJoinLocality'', JoinLocality_enum)]"

definition has_serializer :: "enumeration \<Rightarrow> bool" where
  "has_serializer e = list_ex (\<lambda>prototype. snd prototype = e) serializers"

definition has_deserializer :: "enumeration \<Rightarrow> bool" where
  "has_deserializer e = list_ex (\<lambda>prototype. snd prototype = e) deserializers"

subsection \<open>Functions the header only declares\<close>

text \<open>
  Modelled from the spec: the body of \<^verbatim>\<open>reverseJoinKind\<close> is missing (the header has
  its prototype only). The spec: Left and Right are swapped; "Inner, Full, Cross,
  Comma, Paste are fixed points".
\<close>

fun reverseJoinKind :: "JoinKind \<Rightarrow> JoinKind" where
  "reverseJoinKind JoinKind.Left = JoinKind.Right"
| "reverseJoinKind JoinKind.Right = JoinKind.Left"
| "reverseJoinKind JoinKind.Inner = JoinKind.Inner"
| "reverseJoinKind JoinKind.Full = JoinKind.Full"
| "reverseJoinKind JoinKind.Cross = JoinKind.Cross"
| "reverseJoinKind JoinKind.Comma = JoinKind.Comma"
| "reverseJoinKind JoinKind.Paste = JoinKind.Paste"

text \<open>
  Modelled from the spec: the class \<^verbatim>\<open>WriteBuffer\<close> is missing (the header only
  forward-declares it). The spec: a byte-stream writer with an operation that appends
  raw bytes. A \<open>WriteBuffer\<close> is the bytes written so far.
\<close>

type_synonym WriteBuffer = "u8 list"

text \<open>
  Modelled from the spec: the class \<^verbatim>\<open>ReadBuffer\<close> is missing (the header only
  forward-declares it). The spec: a byte-stream reader with an operation that consumes
  n raw bytes and "signals an error when fewer than" n "bytes remain". A
  \<open>ReadBuffer\<close> is the bytes not yet read.
\<close>

type_synonym ReadBuffer = "u8 list"

text \<open>
  Modelled from the spec: the exception thrown by the deserializers is missing with
  their bodies. The spec: a decoding error is raised when "deserialization reads a
  discriminant with no matching variant, or the stream is exhausted before a complete
  discriminant is read", and it is propagated to the caller.
\<close>

datatype error = DecodingError

text \<open>
  Modelled from the spec: the body of \<^verbatim>\<open>serializeJoinKind\<close> is missing (the header
  has its prototype only). The spec: serialization "writes a single-byte discriminant"
  through the output stream, and the "discriminant-to-variant mapping must exactly
  match the declared order/numbering of each enum".
\<close>

definition serializeJoinKind :: "JoinKind \<Rightarrow> WriteBuffer \<Rightarrow> WriteBuffer" where
  "serializeJoinKind kind out = out @ [JoinKind_to_u8 kind]"

text \<open>
  Modelled from the spec: the body of \<^verbatim>\<open>serializeJoinStrictness\<close> is missing (the
  header has its prototype only). The spec's words are those quoted for
  \<open>serializeJoinKind\<close>.
\<close>

definition serializeJoinStrictness :: "JoinStrictness \<Rightarrow> WriteBuffer \<Rightarrow> WriteBuffer" where
  "serializeJoinStrictness strictness out = out @ [JoinStrictness_to_u8 strictness]"

text \<open>
  Modelled from the spec: the body of \<^verbatim>\<open>serializeJoinLocality\<close> is missing (the
  header has its prototype only). The spec's words are those quoted for
  \<open>serializeJoinKind\<close>.
\<close>

definition serializeJoinLocality :: "JoinLocality \<Rightarrow> WriteBuffer \<Rightarrow> WriteBuffer" where
  "serializeJoinLocality locality out = out @ [JoinLocality_to_u8 locality]"

text \<open>
  Modelled from the spec: the body of \<^verbatim>\<open>deserializeJoinKind\<close> is missing (the header
  has its prototype only). The spec: deserialization "reads that discriminant and
  reconstructs the enum"; it "fails with a decoding error when the byte does not
  correspond to any defined variant", and a decoding error is also raised when "the
  stream is exhausted before a complete discriminant is read". A successful read
  returns the value and the rest of the stream (the cursor has moved by one byte).
\<close>

fun deserializeJoinKind :: "ReadBuffer \<Rightarrow> error + JoinKind \<times> ReadBuffer" where
  "deserializeJoinKind [] = Inl DecodingError"
| "deserializeJoinKind (val # rest) =
     (if val = JoinKind_to_u8 JoinKind.Inner then Inr (JoinKind.Inner, rest)
      else if val = JoinKind_to_u8 JoinKind.Left then Inr (JoinKind.Left, rest)
      else if val = JoinKind_to_u8 JoinKind.Right then Inr (JoinKind.Right, rest)
      else if val = JoinKind_to_u8 JoinKind.Full then Inr (JoinKind.Full, rest)
      else if val = JoinKind_to_u8 JoinKind.Cross then Inr (JoinKind.Cross, rest)
      else if val = JoinKind_to_u8 JoinKind.Comma then Inr (JoinKind.Comma, rest)
      else if val = JoinKind_to_u8 JoinKind.Paste then Inr (JoinKind.Paste, rest)
      else Inl DecodingError)"

text \<open>
  Modelled from the spec: the body of \<^verbatim>\<open>deserializeJoinStrictness\<close> is missing (the
  header has its prototype only). The spec's words are those quoted for
  \<open>deserializeJoinKind\<close>.
\<close>

fun deserializeJoinStrictness :: "ReadBuffer \<Rightarrow> error + JoinStrictness \<times> ReadBuffer" where
  "deserializeJoinStrictness [] = Inl DecodingError"
| "deserializeJoinStrictness (val # rest) =
     (if val = JoinStrictness_to_u8 JoinStrictness.Unspecified
        then Inr (JoinStrictness.Unspecified, rest)
      else if val = JoinStrictness_to_u8 JoinStrictness.RightAny
        then Inr (JoinStrictness.RightAny, rest)
      else if val = JoinStrictness_to_u8 JoinStrictness.Any
        then Inr (JoinStrictness.Any, rest)
      else if val = JoinStrictness_to_u8 JoinStrictness.All
        then Inr (JoinStrictness.All, rest)
      else if val = JoinStrictness_to_u8 JoinStrictness.Asof
        then Inr (JoinStrictness.Asof, rest)
      else if val = JoinStrictness_to_u8 JoinStrictness.Semi
        then Inr (JoinStrictness.Semi, rest)
      else if val = JoinStrictness_to_u8 JoinStrictness.Anti
        then Inr (JoinStrictness.Anti, rest)
      else Inl DecodingError)"

text \<open>
  Modelled from the spec: the body of \<^verbatim>\<open>deserializeJoinLocality\<close> is missing (the
  header has its prototype only). The spec's words are those quoted for
  \<open>deserializeJoinKind\<close>.
\<close>

fun deserializeJoinLocality :: "ReadBuffer \<Rightarrow> error + JoinLocality \<times> ReadBuffer" where
  "deserializeJoinLocality [] = Inl DecodingError"
| "deserializeJoinLocality (val # rest) =
     (if val = JoinLocality_to_u8 JoinLocality.Unspecified
        then Inr (JoinLocality.Unspecified, rest)
      else if val = JoinLocality_to_u8 JoinLocality.Local
        then Inr (JoinLocality.Local, rest)
      else if val = JoinLocality_to_u8 JoinLocality.Global
        then Inr (JoinLocality.Global, rest)
      else Inl DecodingError)"

section \<open>Numbering of the enumerators\<close>

text \<open>
  The conversion tables agree with the numbering rule applied to the header's enumerator
  lists, and the values of an enumeration fill an initial segment of the bytes.
\<close>

lemma JoinKind_to_u8_by_declaration:
  "enumerator_values 0 JoinKind_enumerators =
     map (\<lambda>kind. (kind, JoinKind_to_u8 kind))
       [JoinKind.Inner, JoinKind.Left, JoinKind.Right, JoinKind.Full, JoinKind.Cross,
        JoinKind.Comma, JoinKind.Paste]"
  by (simp add: JoinKind_enumerators_def)

lemma JoinStrictness_to_u8_by_declaration:
  "enumerator_values 0 JoinStrictness_enumerators =
     map (\<lambda>strictness. (strictness, JoinStrictness_to_u8 strictness))
       [JoinStrictness.Unspecified, JoinStrictness.RightAny, JoinStrictness.Any,
        JoinStrictness.All, JoinStrictness.Asof, JoinStrictness.Semi, JoinStrictness.Anti]"
  by (simp add: JoinStrictness_enumerators_def)

lemma JoinLocality_to_u8_by_declaration:
  "enumerator_values 0 JoinLocality_enumerators =
     map (\<lambda>locality. (locality, JoinLocality_to_u8 locality))
       [JoinLocality.Unspecified, JoinLocality.Local, JoinLocality.Global]"
  by (simp add: JoinLocality_enumerators_def)

lemma u8_le_6_cases: "(b :: u8) \<le> 6 \<Longrightarrow> b \<in> {0, 1, 2, 3, 4, 5, 6}"
proof -
  assume "b \<le> 6"
  then have "unat b \<le> 6" by (simp add: word_le_nat_alt)
  then have "unat b \<in> {0, 1, 2, 3, 4, 5, 6}" by auto
  moreover have "\<And>n. unat b = n \<Longrightarrow> b = word_of_nat n" by auto
  ultimately show ?thesis by fastforce
qed

lemma u8_le_2_cases: "(b :: u8) \<le> 2 \<Longrightarrow> b \<in> {0, 1, 2}"
proof -
  assume "b \<le> 2"
  then have "unat b \<le> 2" by (simp add: word_le_nat_alt)
  then have "unat b \<in> {0, 1, 2}" by auto
  moreover have "\<And>n. unat b = n \<Longrightarrow> b = word_of_nat n" by auto
  ultimately show ?thesis by fastforce
qed

lemma JoinKind_to_u8_range: "(b \<in> range JoinKind_to_u8) = (b \<le> 6)"
proof
  assume "b \<in> range JoinKind_to_u8"
  then obtain kind where "b = JoinKind_to_u8 kind" by blast
  then show "b \<le> 6" by (cases kind) simp_all
next
  assume "b \<le> 6"
  then have "b \<in> {0, 1, 2, 3, 4, 5, 6}" by (rule u8_le_6_cases)
  then show "b \<in> range JoinKind_to_u8"
    by (elim insertE emptyE) (metis JoinKind_to_u8.simps rangeI)+
qed

lemma JoinStrictness_to_u8_range: "(b \<in> range JoinStrictness_to_u8) = (b \<le> 6)"
proof
  assume "b \<in> range JoinStrictness_to_u8"
  then obtain strictness where "b = JoinStrictness_to_u8 strictness" by blast
  then show "b \<le> 6" by (cases strictness) simp_all
next
  assume "b \<le> 6"
  then have "b \<in> {0, 1, 2, 3, 4, 5, 6}" by (rule u8_le_6_cases)
  then show "b \<in> range JoinStrictness_to_u8"
    by (elim insertE emptyE) (metis JoinStrictness_to_u8.simps rangeI)+
qed

lemma JoinLocality_to_u8_range: "(b \<in> range JoinLocality_to_u8) = (b \<le> 2)"
proof
  assume "b \<in> range JoinLocality_to_u8"
  then obtain locality where "b = JoinLocality_to_u8 locality" by blast
  then show "b \<le> 2" by (cases locality) simp_all
next
  assume "b \<le> 2"
  then have "b \<in> {0, 1, 2}" by (rule u8_le_2_cases)
  then show "b \<in> range JoinLocality_to_u8"
    by (elim insertE emptyE) (metis JoinLocality_to_u8.simps rangeI)+
qed

section \<open>Classification of join kinds\<close>

lemmas JoinKind_predicate_defs =
  isLeft_def isRight_def isInner_def isFull_def isOuter_def isCrossOrComma_def
  isRightOrFull_def isLeftOrFull_def isInnerOrRight_def isInnerOrLeft_def isPaste_def

text \<open>
  Claim C6. For every \<open>JoinKind\<close> \<open>k\<close>: \<open>isOuter k\<close> holds exactly when \<open>k\<close> is
  Left, Right or Full; \<open>isCrossOrComma k\<close> exactly when \<open>k\<close> is Cross or Comma; and
  \<open>isRightOrFull\<close>, \<open>isLeftOrFull\<close>, \<open>isInnerOrRight\<close>, \<open>isInnerOrLeft\<close> hold exactly
  on \<open>{Right, Full}\<close>, \<open>{Left, Full}\<close>, \<open>{Inner, Right}\<close>, \<open>{Inner, Left}\<close>.
\<close>

theorem predicate_classification:
  "isOuter k = (k \<in> {JoinKind.Left, JoinKind.Right, JoinKind.Full})
   \<and> isCrossOrComma k = (k \<in> {JoinKind.Cross, JoinKind.Comma})
   \<and> isRightOrFull k = (k \<in> {JoinKind.Right, JoinKind.Full})
   \<and> isLeftOrFull k = (k \<in> {JoinKind.Left, JoinKind.Full})
   \<and> isInnerOrRight k = (k \<in> {JoinKind.Inner, JoinKind.Right})
   \<and> isInnerOrLeft k = (k \<in> {JoinKind.Inner, JoinKind.Left})"
  by (cases k) (simp_all add: JoinKind_predicate_defs)

text \<open>
  Claim C7. For every \<open>JoinKind\<close> \<open>k\<close>, \<open>isOuter k\<close> equals
  \<open>isLeft k \<or> isRight k \<or> isFull k\<close>, and exactly one of \<open>isLeft\<close>, \<open>isRight\<close>,
  \<open>isInner\<close>, \<open>isFull\<close>, \<open>isCrossOrComma\<close>, \<open>isPaste\<close> holds of \<open>k\<close>: the number of
  these six predicates that are true of \<open>k\<close> is 1.
\<close>

theorem predicate_partition:
  "isOuter k = (isLeft k \<or> isRight k \<or> isFull k)
   \<and> length (filter (\<lambda>p. p k)
         [isLeft, isRight, isInner, isFull, isCrossOrComma, isPaste]) = 1"
  by (cases k) (simp_all add: JoinKind_predicate_defs)

section \<open>Lookup of as-of inequalities by function name\<close>

text \<open>
  Claim C4. \<open>getASOFJoinInequality\<close> maps "less" to Less, "greater" to Greater,
  "lessOrEquals" to LessOrEquals and "greaterOrEquals" to GreaterOrEquals, and every
  other string to None. It is a total function: no input makes it fail.
\<close>

theorem getASOFJoinInequality_lookup:
  "getASOFJoinInequality ''less'' = ASOFJoinInequality.Less
   \<and> getASOFJoinInequality ''greater'' = ASOFJoinInequality.Greater
   \<and> getASOFJoinInequality ''lessOrEquals'' = ASOFJoinInequality.LessOrEquals
   \<and> getASOFJoinInequality ''greaterOrEquals'' = ASOFJoinInequality.GreaterOrEquals
   \<and> (func_name \<notin> {''less'', ''greater'', ''lessOrEquals'', ''greaterOrEquals''}
        \<longrightarrow> getASOFJoinInequality func_name = ASOFJoinInequality.None)"
  by (simp add: getASOFJoinInequality_def)

theorem getASOFJoinInequality_lookup_witness:
  "''unknownFunc'' \<notin> {''less'', ''greater'', ''lessOrEquals'', ''greaterOrEquals''}
   \<and> getASOFJoinInequality ''unknownFunc'' = ASOFJoinInequality.None"
proof -
  have other: "''unknownFunc'' \<notin> {''less'', ''greater'', ''lessOrEquals'', ''greaterOrEquals''}"
    by simp
  with getASOFJoinInequality_lookup [of "''unknownFunc''"] show ?thesis
    by blast
qed

text \<open>
  Claim C10. Recognition is exact, case-sensitive string equality: the result differs
  from None only for the four strings "less", "greater", "lessOrEquals" and
  "greaterOrEquals" themselves; a string that differs from them in case, in whitespace
  or in any character, such as "Less", "LESS", "less " or "lessorequals", gives None.
\<close>

theorem getASOFJoinInequality_exact:
  "(getASOFJoinInequality func_name \<noteq> ASOFJoinInequality.None)
     = (func_name \<in> {''less'', ''greater'', ''lessOrEquals'', ''greaterOrEquals''})
   \<and> getASOFJoinInequality ''Less'' = ASOFJoinInequality.None
   \<and> getASOFJoinInequality ''LESS'' = ASOFJoinInequality.None
   \<and> getASOFJoinInequality ''less '' = ASOFJoinInequality.None
   \<and> getASOFJoinInequality ''lessorequals'' = ASOFJoinInequality.None"
  by (simp add: getASOFJoinInequality_def)

section \<open>Reversal\<close>

text \<open>
  Claim C2. Both reversals are involutions: \<open>reverseJoinKind (reverseJoinKind k) = k\<close>
  for every \<open>JoinKind\<close> \<open>k\<close>, and
  \<open>reverseASOFJoinInequality (reverseASOFJoinInequality i) = i\<close> for every
  \<open>ASOFJoinInequality\<close> \<open>i\<close>.
\<close>

theorem reverse_involution:
  "reverseJoinKind (reverseJoinKind k) = k
   \<and> reverseASOFJoinInequality (reverseASOFJoinInequality i) = i"
proof
  show "reverseJoinKind (reverseJoinKind k) = k"
    by (cases k) simp_all
  show "reverseASOFJoinInequality (reverseASOFJoinInequality i) = i"
    by (cases i) (simp_all add: reverseASOFJoinInequality_def)
qed

text \<open>
  Claim C3. \<open>reverseJoinKind\<close> maps Left to Right and Right to Left and leaves Inner,
  Full, Cross, Comma and Paste unchanged; \<open>reverseASOFJoinInequality\<close> maps Less to
  Greater, Greater to Less, LessOrEquals to GreaterOrEquals, GreaterOrEquals to
  LessOrEquals, and leaves None unchanged.
\<close>

theorem reverse_mapping:
  "map reverseJoinKind
     [JoinKind.Left, JoinKind.Right, JoinKind.Inner, JoinKind.Full, JoinKind.Cross,
      JoinKind.Comma, JoinKind.Paste]
     = [JoinKind.Right, JoinKind.Left, JoinKind.Inner, JoinKind.Full, JoinKind.Cross,
        JoinKind.Comma, JoinKind.Paste]
   \<and> map reverseASOFJoinInequality
       [ASOFJoinInequality.Less, ASOFJoinInequality.Greater, ASOFJoinInequality.LessOrEquals,
        ASOFJoinInequality.GreaterOrEquals, ASOFJoinInequality.None]
       = [ASOFJoinInequality.Greater, ASOFJoinInequality.Less,
          ASOFJoinInequality.GreaterOrEquals, ASOFJoinInequality.LessOrEquals,
          ASOFJoinInequality.None]"
  by (simp add: reverseASOFJoinInequality_def)

section \<open>Serialization\<close>

lemmas serialization_interface_defs =
  enumerations_def serializers_def deserializers_def has_serializer_def has_deserializer_def

text \<open>
  Claim C1, as stated: the round trip holds for every variant of every enumeration of
  the header. It cannot be stated for every enumeration: \<open>ASOFJoinInequality\<close> is one
  of the six, and the header declares no serializer for it.
\<close>

theorem ASOFJoinInequality_has_no_serializer:
  "\<not> has_serializer ASOFJoinInequality_enum"
  by (simp add: serialization_interface_defs)

text \<open>
  Claim C1, amended. The enumerations with serialization functions are \<open>JoinKind\<close>,
  \<open>JoinStrictness\<close> and \<open>JoinLocality\<close>. For every variant of each of them, the
  serializer appends one byte, the variant's discriminant, to whatever the output
  stream already holds, and the deserializer, reading from the bytes the serializer
  added, whatever follows them in the input stream, yields that variant again and leaves
  the stream at what follows.
\<close>

theorem serialize_deserialize_roundtrip:
  "filter has_serializer enumerations = [JoinKind_enum, JoinStrictness_enum, JoinLocality_enum]
   \<and> filter has_deserializer enumerations
       = [JoinKind_enum, JoinStrictness_enum, JoinLocality_enum]
   \<and> serializeJoinKind kind out = out @ [JoinKind_to_u8 kind]
   \<and> deserializeJoinKind (drop (length out) (serializeJoinKind kind out) @ rest)
       = Inr (kind, rest)
   \<and> serializeJoinStrictness strictness out = out @ [JoinStrictness_to_u8 strictness]
   \<and> deserializeJoinStrictness
         (drop (length out) (serializeJoinStrictness strictness out) @ rest)
       = Inr (strictness, rest)
   \<and> serializeJoinLocality locality out = out @ [JoinLocality_to_u8 locality]
   \<and> deserializeJoinLocality (drop (length out) (serializeJoinLocality locality out) @ rest)
       = Inr (locality, rest)"
proof (intro conjI)
  show "filter has_serializer enumerations
          = [JoinKind_enum, JoinStrictness_enum, JoinLocality_enum]"
    by (simp add: serialization_interface_defs)
  show "filter has_deserializer enumerations
          = [JoinKind_enum, JoinStrictness_enum, JoinLocality_enum]"
    by (simp add: serialization_interface_defs)
  show "serializeJoinKind kind out = out @ [JoinKind_to_u8 kind]"
    by (simp add: serializeJoinKind_def)
  show "deserializeJoinKind (drop (length out) (serializeJoinKind kind out) @ rest)
          = Inr (kind, rest)"
    by (cases kind) (simp_all add: serializeJoinKind_def)
  show "serializeJoinStrictness strictness out = out @ [JoinStrictness_to_u8 strictness]"
    by (simp add: serializeJoinStrictness_def)
  show "deserializeJoinStrictness
          (drop (length out) (serializeJoinStrictness strictness out) @ rest)
          = Inr (strictness, rest)"
    by (cases strictness) (simp_all add: serializeJoinStrictness_def)
  show "serializeJoinLocality locality out = out @ [JoinLocality_to_u8 locality]"
    by (simp add: serializeJoinLocality_def)
  show "deserializeJoinLocality (drop (length out) (serializeJoinLocality locality out) @ rest)
          = Inr (locality, rest)"
    by (cases locality) (simp_all add: serializeJoinLocality_def)
qed

text \<open>
  Claim C5, as stated: decoding rejects an out-of-range discriminant for every
  enumeration of the header. It cannot be stated for every enumeration:
  \<open>JoinAlgorithm\<close> is one of the six, and the header declares no deserializer for it.
\<close>

theorem JoinAlgorithm_has_no_deserializer:
  "\<not> has_deserializer JoinAlgorithm_enum"
  by (simp add: serialization_interface_defs)

text \<open>
  Claim C5, amended. The enumerations with a deserializer are \<open>JoinKind\<close>,
  \<open>JoinStrictness\<close> and \<open>JoinLocality\<close>. For each of them, a discriminant byte
  outside the declared range of the enumeration (above 6 for \<open>JoinKind\<close> and
  \<open>JoinStrictness\<close>, above 2 for \<open>JoinLocality\<close>) makes the deserializer return the
  decoding error to its caller; the outcome is the error, never a variant.
\<close>

theorem deserialize_rejects_out_of_range:
  "filter has_deserializer enumerations = [JoinKind_enum, JoinStrictness_enum, JoinLocality_enum]
   \<and> (6 < b \<longrightarrow> deserializeJoinKind (b # rest) = Inl DecodingError)
   \<and> (6 < b \<longrightarrow> deserializeJoinStrictness (b # rest) = Inl DecodingError)
   \<and> (2 < b \<longrightarrow> deserializeJoinLocality (b # rest) = Inl DecodingError)"
proof (intro conjI)
  show "filter has_deserializer enumerations
          = [JoinKind_enum, JoinStrictness_enum, JoinLocality_enum]"
    by (simp add: serialization_interface_defs)
  show "6 < b \<longrightarrow> deserializeJoinKind (b # rest) = Inl DecodingError"
    by auto
  show "6 < b \<longrightarrow> deserializeJoinStrictness (b # rest) = Inl DecodingError"
    by auto
  show "2 < b \<longrightarrow> deserializeJoinLocality (b # rest) = Inl DecodingError"
    by auto
qed

theorem deserialize_rejects_out_of_range_witness:
  "(6 :: u8) < 7 \<and> (2 :: u8) < 7
   \<and> deserializeJoinKind [7] = Inl DecodingError
   \<and> deserializeJoinStrictness [7] = Inl DecodingError
   \<and> deserializeJoinLocality [7] = Inl DecodingError"
proof -
  have above: "(6 :: u8) < 7" "(2 :: u8) < 7"
    by simp_all
  with deserialize_rejects_out_of_range [of 7 "[]"] show ?thesis
    by blast
qed

section \<open>Numbering by declaration order\<close>



end
